theory Spec2Isabelle
  imports Complex_Main
begin

section \<open>The schedule planner of \<open>streamlit_app.py\<close>\<close>

text \<open>
  The planner computes with Python numbers. They are modelled as \<^typ>\<open>real\<close>: the
  arithmetic of the model is exact, so rounding error, infinities and NaN of the
  machine's binary floating point are outside of it. Exceptions of the source are values
  of \<open>py_error\<close>, and a function that can raise returns \<open>py_error + 'a\<close>.
\<close>

datatype py_error = ZeroDivisionError | ValueError

subsection \<open>Travel time\<close>

text \<open>
  \<^verbatim>\<open>def travel_time_minutes(distance_km, speed_kmph):
      return 60.0 * distance_km / speed_kmph\<close>
  Python raises \<open>ZeroDivisionError\<close> when the divisor is zero; a negative speed is
  divided by like any other number.
\<close>

definition travel_time_minutes :: "real \<Rightarrow> real \<Rightarrow> py_error + real" where
  "travel_time_minutes distance_km speed_kmph =
     (if speed_kmph = 0 then Inl ZeroDivisionError
      else Inr (60 * distance_km / speed_kmph))"

subsection \<open>Plans\<close>

text \<open>
  A plan is the dictionary that \<open>build_schedule\<close> builds with \<open>dict(name=..., ...)\<close>:
  always the same eight keys, so a record. The two names hold an en dash, which is the
  three bytes \<open>E2 80 93\<close> in UTF-8.
\<close>

record plan =
  name :: string
  dep_exp :: real
  arr_exp :: real
  dep_fre :: real
  arr_fre :: real
  delay_exp :: real
  delay_fre :: real
  score :: real

definition en_dash :: string where
  "en_dash = [CHR 0xE2, CHR 0x80, CHR 0x93]"

definition name_A :: string where
  "name_A = ''Option A '' @ en_dash @ '' Hold Freight; Express first''"

definition name_B :: string where
  "name_B = ''Option B '' @ en_dash @ '' Delay Express; Freight first''"

subsection \<open>The candidate plans and the selection\<close>

text \<open>
  \<open>build_schedule\<close> has two keyword parameters with defaults, \<open>w_exp=3.0\<close> and
  \<open>w_freight=1.0\<close>. An omitted argument is \<open>None\<close> in the model, and the first two
  lines of the body put the default in its place, as the call does in Python.
  The rest follows the source line by line; the last binding is the selection
  \<^verbatim>\<open>best = plan_A if plan_A["score"] <= plan_B["score"] else plan_B\<close>
  and the result is the tuple \<open>(best, plan_A, plan_B, (t_exp_run, t_fre_run))\<close>.
\<close>

definition build_schedule ::
  "real \<Rightarrow> real \<Rightarrow> real \<Rightarrow> real \<Rightarrow> real \<Rightarrow> real \<Rightarrow> real option \<Rightarrow> real option
     \<Rightarrow> py_error + (plan \<times> plan \<times> plan \<times> (real \<times> real))" where
  "build_schedule distance_km v_exp v_freight dep_exp_planned dep_freight_planned headway_min
       w_exp_arg w_freight_arg =
     (let w_exp = (case w_exp_arg of None \<Rightarrow> 3 | Some w \<Rightarrow> w);
          w_freight = (case w_freight_arg of None \<Rightarrow> 1 | Some w \<Rightarrow> w)
      in
      case travel_time_minutes distance_km v_exp of
        Inl e \<Rightarrow> Inl e
      | Inr t_exp_run \<Rightarrow>
      (case travel_time_minutes distance_km v_freight of
        Inl e \<Rightarrow> Inl e
      | Inr t_fre_run \<Rightarrow>
        (let dep_exp_A = dep_exp_planned;
             arr_exp_A = dep_exp_A + t_exp_run;
             dep_fre_A = max dep_freight_planned (arr_exp_A + headway_min);
             arr_fre_A = dep_fre_A + t_fre_run;
             delay_exp_A = max 0 (dep_exp_A - dep_exp_planned);
             delay_fre_A = max 0 (dep_fre_A - dep_freight_planned);
             score_A = w_exp * delay_exp_A + w_freight * delay_fre_A;
             plan_A = \<lparr>name = name_A,
                       dep_exp = dep_exp_A, arr_exp = arr_exp_A,
                       dep_fre = dep_fre_A, arr_fre = arr_fre_A,
                       delay_exp = delay_exp_A, delay_fre = delay_fre_A,
                       score = score_A\<rparr>;
             dep_fre_B = dep_freight_planned;
             arr_fre_B = dep_fre_B + t_fre_run;
             dep_exp_B = max dep_exp_planned (arr_fre_B + headway_min);
             arr_exp_B = dep_exp_B + t_exp_run;
             delay_exp_B = max 0 (dep_exp_B - dep_exp_planned);
             delay_fre_B = max 0 (dep_fre_B - dep_freight_planned);
             score_B = w_exp * delay_exp_B + w_freight * delay_fre_B;
             plan_B = \<lparr>name = name_B,
                       dep_exp = dep_exp_B, arr_exp = arr_exp_B,
                       dep_fre = dep_fre_B, arr_fre = arr_fre_B,
                       delay_exp = delay_exp_B, delay_fre = delay_fre_B,
                       score = score_B\<rparr>;
             best = (if score plan_A \<le> score plan_B then plan_A else plan_B)
         in Inr (best, plan_A, plan_B, (t_exp_run, t_fre_run)))))"

section \<open>The clock utilities\<close>

subsection \<open>Strings of the Python library\<close>

text \<open>
  \<open>str.split(sep)\<close> with a separator of one character: the pieces between the
  occurrences of the separator, empty pieces included, so a string with \<open>n\<close>
  separators gives \<open>n + 1\<close> pieces and the empty string gives one empty piece.
\<close>

fun split_on :: "char \<Rightarrow> string \<Rightarrow> string list" where
  "split_on sep [] = [[]]"
| "split_on sep (c # cs) =
     (if c = sep then [] # split_on sep cs
      else (case split_on sep cs of
              [] \<Rightarrow> [[c]]
            | p # ps \<Rightarrow> (c # p) # ps))"

text \<open>
  \<open>int(s)\<close> on a string, base 10, for strings of ASCII characters: white space at both
  ends is dropped (tab, line feed, vertical tab, form feed, carriage return and the
  blank: the codes 9 to 13 and 32), then comes an optional sign and then decimal digits
  (the codes 48 to 57), where one underscore may stand between two digits. A string
  with more than 4300 digits is refused; sign, underscores and white space do not count. Everything else raises \<open>ValueError\<close>, which is \<open>None\<close>
  here; the caller turns it into the error.
\<close>

definition is_space :: "char \<Rightarrow> bool" where
  "is_space c \<longleftrightarrow>
     (let k = (of_char c :: nat) in (9 \<le> k \<and> k \<le> 13) \<or> k = 32)"

definition strip :: "string \<Rightarrow> string" where
  "strip s = rev (dropWhile is_space (rev (dropWhile is_space s)))"

definition digit_of :: "char \<Rightarrow> nat option" where
  "digit_of c =
     (let k = (of_char c :: nat) in if 48 \<le> k \<and> k \<le> 57 then Some (k - 48) else None)"

fun py_digits :: "string \<Rightarrow> nat list option" where
  "py_digits [] = None"
| "py_digits [c] = map_option (\<lambda>d. [d]) (digit_of c)"
| "py_digits (c # c' # cs) =
     (case digit_of c of
        None \<Rightarrow> None
      | Some d \<Rightarrow> map_option (Cons d) (py_digits (if c' = CHR ''_'' then cs else c' # cs)))"

definition decimal_value :: "nat list \<Rightarrow> nat" where
  "decimal_value ds = foldl (\<lambda>v d. 10 * v + d) 0 ds"

definition int_max_str_digits :: nat where
  "int_max_str_digits = 4300"

definition py_int :: "string \<Rightarrow> int option" where
  "py_int s =
     (let t = strip s;
          (negative, body) =
            (case t of
               [] \<Rightarrow> (False, [])
             | c # r \<Rightarrow> if c = CHR ''-'' then (True, r)
                        else if c = CHR ''+'' then (False, r)
                        else (False, t))
      in case py_digits body of
           None \<Rightarrow> None
         | Some ds \<Rightarrow>
             if int_max_str_digits < length ds then None
             else Some (if negative then - int (decimal_value ds) else int (decimal_value ds)))"

text \<open>
  \<open>round(x)\<close> with one argument gives the integer nearest to \<open>x\<close>, and of the two
  nearest the even one when \<open>x\<close> lies half way between them.
\<close>

definition py_round :: "real \<Rightarrow> int" where
  "py_round x =
     (let f = \<lfloor>x\<rfloor>; r = x - of_int f
      in if r < 1 / 2 then f
         else if 1 / 2 < r then f + 1
         else if even f then f else f + 1)"

text \<open>
  The format \<open>02d\<close> of an f-string: the integer in decimal, with a minus sign if it is
  negative, filled with zeros after the sign up to a width of two characters. A longer
  number is not cut.
\<close>

definition digit_char :: "nat \<Rightarrow> char" where
  "digit_char n = char_of (48 + n)"

fun decimal_digits :: "nat \<Rightarrow> string" where
  "decimal_digits n =
     (if n < 10 then [digit_char n]
      else decimal_digits (n div 10) @ [digit_char (n mod 10)])"

definition format_02d :: "int \<Rightarrow> string" where
  "format_02d i =
     (if i < 0
      then CHR ''-'' # replicate (1 - length (decimal_digits (nat (- i)))) CHR ''0''
             @ decimal_digits (nat (- i))
      else replicate (2 - length (decimal_digits (nat i))) CHR ''0''
             @ decimal_digits (nat i))"

subsection \<open>Parsing and formatting a clock time\<close>

text \<open>
  \<^verbatim>\<open>def hhmm_to_minutes(t_str: str) -> int:
      h, m = map(int, t_str.split(":"))
      return h * 60 + m\<close>
  The unpacking into \<open>h, m\<close> raises \<open>ValueError\<close> unless there are exactly two pieces,
  and \<open>int\<close> raises \<open>ValueError\<close> on a piece that is no integer. There is no check of
  the range of \<open>h\<close> or \<open>m\<close>.
\<close>

definition hhmm_to_minutes :: "string \<Rightarrow> py_error + int" where
  "hhmm_to_minutes t_str =
     (case split_on CHR '':'' t_str of
        [a, b] \<Rightarrow>
          (case py_int a of
             None \<Rightarrow> Inl ValueError
           | Some h \<Rightarrow>
               (case py_int b of
                  None \<Rightarrow> Inl ValueError
                | Some m \<Rightarrow> Inr (h * 60 + m)))
      | _ \<Rightarrow> Inl ValueError)"

text \<open>
  \<^verbatim>\<open>def minutes_to_hhmm(m: int) -> str:
      m = int(round(m))
      h = (m // 60) % 24
      mm = m % 60
      return f"{h:02d}:{mm:02d}"\<close>
  The callers pass the departure and arrival times of the plans, so the argument is a
  real number. Floor division and remainder of Python are \<open>div\<close> and \<open>mod\<close> on \<^typ>\<open>int\<close>.
\<close>

definition minutes_to_hhmm :: "real \<Rightarrow> string" where
  "minutes_to_hhmm m0 =
     (let m = py_round m0;
          h = (m div 60) mod 24;
          mm = m mod 60
      in format_02d h @ '':'' @ format_02d mm)"

section \<open>Properties of the plan generator\<close>


text \<open>
  With both speeds different from zero the body runs to its \<open>return\<close>. The lemma names
  the two plans and the selected one by what the source assigns to them.
\<close>

lemma build_schedule_runs:
  assumes "v_exp \<noteq> 0" and "v_freight \<noteq> 0"
  shows "build_schedule d v_exp v_freight pe pf h (Some w_e) (Some w_f) =
     (let te = 60 * d / v_exp; tf = 60 * d / v_freight;
          dfA = max pf (pe + te + h);
          deB = max pe (pf + tf + h);
          A = \<lparr>name = name_A, dep_exp = pe, arr_exp = pe + te,
                dep_fre = dfA, arr_fre = dfA + tf,
                delay_exp = 0, delay_fre = max 0 (dfA - pf),
                score = w_f * max 0 (dfA - pf)\<rparr>;
          B = \<lparr>name = name_B, dep_exp = deB, arr_exp = deB + te,
                dep_fre = pf, arr_fre = pf + tf,
                delay_exp = max 0 (deB - pe), delay_fre = 0,
                score = w_e * max 0 (deB - pe)\<rparr>
      in Inr (if score A \<le> score B then A else B, A, B, (te, tf)))"
  using assms by (simp add: build_schedule_def travel_time_minutes_def Let_def)

lemma build_schedule_selects:
  assumes "build_schedule d v_exp v_freight pe pf h w1 w2 = Inr (best, A, B, tt)"
  shows "best = (if score A \<le> score B then A else B)"
proof -
  from assms obtain te tf where
    "travel_time_minutes d v_exp = Inr te" and "travel_time_minutes d v_freight = Inr tf"
    unfolding build_schedule_def Let_def
    by (cases "travel_time_minutes d v_exp"; cases "travel_time_minutes d v_freight")
       (simp_all only: sum.case sum.distinct)
  with assms show ?thesis
    unfolding build_schedule_def Let_def
    by (simp only: sum.case sum.inject prod.inject) (elim conjE, hypsubst, rule refl)
qed

subsection \<open>The reference formulas\<close>

text \<open>
  Claim C1. For a valid input (distance, both speeds and both weights positive, headway
  not negative) the generator returns the two travel times \<open>60 * d / v\<close> and two plans
  that satisfy the formulas of the specification. Plan A: the express leaves at its
  planned time with delay 0 and arrives one travel time later, the freight leaves at
  \<open>max plannedFre (arrExpA + headway)\<close>. Plan B: the same with the roles swapped. In
  both, a delay is \<open>max 0 (departure - planned)\<close> and the score is
  \<open>wExp * delayExp + wFre * delayFre\<close>.
\<close>

theorem build_schedule_reference_formulas:
  assumes "0 < d" and "0 < v_exp" and "0 < v_freight" and "0 \<le> h" and "0 < w_e" and "0 < w_f"
  shows "\<exists>best A B.
     build_schedule d v_exp v_freight pe pf h (Some w_e) (Some w_f) =
       Inr (best, A, B, (60 * d / v_exp, 60 * d / v_freight)) \<and>
     dep_exp A = pe \<and> delay_exp A = 0 \<and>
     arr_exp A = dep_exp A + 60 * d / v_exp \<and>
     dep_fre A = max pf (arr_exp A + h) \<and>
     arr_fre A = dep_fre A + 60 * d / v_freight \<and>
     delay_exp A = max 0 (dep_exp A - pe) \<and>
     delay_fre A = max 0 (dep_fre A - pf) \<and>
     score A = w_e * delay_exp A + w_f * delay_fre A \<and>
     dep_fre B = pf \<and> delay_fre B = 0 \<and>
     arr_fre B = dep_fre B + 60 * d / v_freight \<and>
     dep_exp B = max pe (arr_fre B + h) \<and>
     arr_exp B = dep_exp B + 60 * d / v_exp \<and>
     delay_exp B = max 0 (dep_exp B - pe) \<and>
     delay_fre B = max 0 (dep_fre B - pf) \<and>
     score B = w_e * delay_exp B + w_f * delay_fre B"
proof -
  from assms have nz: "v_exp \<noteq> 0" "v_freight \<noteq> 0" by simp_all
  show ?thesis
    unfolding build_schedule_runs [OF nz] Let_def
    apply (intro exI conjI)
    apply (rule refl)
    apply simp_all
    done
qed

theorem build_schedule_reference_formulas_witness:
  "(0::real) < 60 \<and> (0::real) < 60 \<and> (0::real) < 30 \<and> (0::real) \<le> 5 \<and>
   (0::real) < 3 \<and> (0::real) < 1 \<and>
   (\<exists>best A B.
     build_schedule 60 60 30 10 0 5 (Some 3) (Some 1) =
       Inr (best, A, B, (60 * 60 / 60, 60 * 60 / 30)) \<and>
     dep_exp A = 10 \<and> delay_exp A = 0 \<and>
     arr_exp A = dep_exp A + 60 * 60 / 60 \<and>
     dep_fre A = max 0 (arr_exp A + 5) \<and>
     arr_fre A = dep_fre A + 60 * 60 / 30 \<and>
     delay_exp A = max 0 (dep_exp A - 10) \<and>
     delay_fre A = max 0 (dep_fre A - 0) \<and>
     score A = 3 * delay_exp A + 1 * delay_fre A \<and>
     dep_fre B = 0 \<and> delay_fre B = 0 \<and>
     arr_fre B = dep_fre B + 60 * 60 / 30 \<and>
     dep_exp B = max 10 (arr_fre B + 5) \<and>
     arr_exp B = dep_exp B + 60 * 60 / 60 \<and>
     delay_exp B = max 0 (dep_exp B - 10) \<and>
     delay_fre B = max 0 (dep_fre B - 0) \<and>
     score B = 3 * delay_exp B + 1 * delay_fre B)"
proof -
  have h: "(0::real) < 60" "(0::real) < 60" "(0::real) < 30" "(0::real) \<le> 5"
    "(0::real) < 3" "(0::real) < 1"
    by simp_all
  note c = build_schedule_reference_formulas [OF h, of 10 0]
  from h c show ?thesis by (intro conjI)
qed

subsection \<open>The selection\<close>

text \<open>
  Claim C2. Whenever the generator returns, the selected plan is Plan A if the score of
  Plan A is less than or equal to the score of Plan B, and Plan B otherwise. So the
  plan with the strictly lower score is returned, Plan A is returned on a tie, and the
  selected plan is one of the two plans of the same result, unchanged.
\<close>

theorem selector_returns_lower_score:
  assumes "build_schedule d v_exp v_freight pe pf h w1 w2 = Inr (best, A, B, tt)"
  shows "best = (if score A \<le> score B then A else B) \<and>
         (score A < score B \<longrightarrow> best = A) \<and>
         (score B < score A \<longrightarrow> best = B) \<and>
         (score A = score B \<longrightarrow> best = A) \<and>
         (best = A \<or> best = B)"
proof -
  have "best = (if score A \<le> score B then A else B)"
    using assms by (rule build_schedule_selects)
  then show ?thesis by simp
qed

text \<open>
  The witness is a tie: both trains planned at minute 0 with the same speed and the
  same weight. Both plans score 65 and Plan A is the one returned.
\<close>

theorem selector_returns_lower_score_witness:
  "(let A = \<lparr>name = name_A, dep_exp = 0, arr_exp = 60, dep_fre = 65, arr_fre = 125,
              delay_exp = 0, delay_fre = 65, score = 65\<rparr>;
        B = \<lparr>name = name_B, dep_exp = 65, arr_exp = 125, dep_fre = 0, arr_fre = 60,
              delay_exp = 65, delay_fre = 0, score = 65\<rparr>
    in build_schedule 60 60 60 0 0 5 (Some 1) (Some 1) = Inr (A, A, B, (60, 60)) \<and>
       A = (if score A \<le> score B then A else B) \<and>
       (score A < score B \<longrightarrow> A = A) \<and>
       (score B < score A \<longrightarrow> A = B) \<and>
       (score A = score B \<longrightarrow> A = A) \<and>
       (A = A \<or> A = B))"
proof -
  have run: "build_schedule 60 60 60 0 0 5 (Some 1) (Some 1) =
      Inr (\<lparr>name = name_A, dep_exp = 0, arr_exp = 60, dep_fre = 65, arr_fre = 125,
              delay_exp = 0, delay_fre = 65, score = 65\<rparr>,
           \<lparr>name = name_A, dep_exp = 0, arr_exp = 60, dep_fre = 65, arr_fre = 125,
              delay_exp = 0, delay_fre = 65, score = 65\<rparr>,
           \<lparr>name = name_B, dep_exp = 65, arr_exp = 125, dep_fre = 0, arr_fre = 60,
              delay_exp = 65, delay_fre = 0, score = 65\<rparr>, (60, 60))"
    by (simp add: build_schedule_runs Let_def)
  note c = selector_returns_lower_score [OF run]
  show ?thesis unfolding Let_def by (rule conjI [OF run c])
qed

text \<open>
  The other branch: with weight 3 on the freight and weight 1 on the express, holding
  the freight costs 195 and holding the express 65, and Plan B is the one returned.
\<close>

lemma build_schedule_selects_B_example:
  "build_schedule 60 60 60 0 0 5 (Some 1) (Some 3) =
     Inr (\<lparr>name = name_B, dep_exp = 65, arr_exp = 125, dep_fre = 0, arr_fre = 60,
            delay_exp = 65, delay_fre = 0, score = 65\<rparr>,
          \<lparr>name = name_A, dep_exp = 0, arr_exp = 60, dep_fre = 65, arr_fre = 125,
            delay_exp = 0, delay_fre = 65, score = 195\<rparr>,
          \<lparr>name = name_B, dep_exp = 65, arr_exp = 125, dep_fre = 0, arr_fre = 60,
            delay_exp = 65, delay_fre = 0, score = 65\<rparr>, (60, 60))"
  by (simp add: build_schedule_runs Let_def)

subsection \<open>Headway and delays\<close>

text \<open>
  Claim C3. For a valid input, a headway of 0 included, the trailing train of each plan
  leaves no earlier than the leading train's arrival plus the headway: the freight in
  Plan A, the express in Plan B. The leading train does not leave before its planned
  time.
\<close>

theorem headway_respected:
  assumes "0 < d" and "0 < v_exp" and "0 < v_freight" and "0 \<le> h" and "0 < w_e" and "0 < w_f"
  shows "\<exists>best A B tt.
     build_schedule d v_exp v_freight pe pf h (Some w_e) (Some w_f) = Inr (best, A, B, tt) \<and>
     arr_exp A + h \<le> dep_fre A \<and>
     arr_fre B + h \<le> dep_exp B \<and>
     pe \<le> dep_exp A \<and>
     pf \<le> dep_fre B"
proof -
  from assms have nz: "v_exp \<noteq> 0" "v_freight \<noteq> 0" by simp_all
  show ?thesis
    unfolding build_schedule_runs [OF nz] Let_def
    apply (intro exI conjI)
    apply (rule refl)
    apply simp_all
    done
qed

text \<open>The witness has headway 0, the boundary of the claim.\<close>

theorem headway_respected_witness:
  "(0::real) < 60 \<and> (0::real) < 60 \<and> (0::real) < 30 \<and> (0::real) \<le> 0 \<and>
   (0::real) < 3 \<and> (0::real) < 1 \<and>
   (\<exists>best A B tt.
     build_schedule 60 60 30 10 0 0 (Some 3) (Some 1) = Inr (best, A, B, tt) \<and>
     arr_exp A + 0 \<le> dep_fre A \<and>
     arr_fre B + 0 \<le> dep_exp B \<and>
     10 \<le> dep_exp A \<and>
     0 \<le> dep_fre B)"
proof -
  have h: "(0::real) < 60" "(0::real) < 60" "(0::real) < 30" "(0::real) \<le> 0"
    "(0::real) < 3" "(0::real) < 1"
    by simp_all
  note c = headway_respected [OF h, of 10 0]
  from h c show ?thesis by (intro conjI)
qed

text \<open>
  Claim C6. For a valid input, the delay of the express and the delay of the freight
  are not negative, in Plan A and in Plan B.
\<close>

theorem delays_nonnegative:
  assumes "0 < d" and "0 < v_exp" and "0 < v_freight" and "0 \<le> h" and "0 < w_e" and "0 < w_f"
  shows "\<exists>best A B tt.
     build_schedule d v_exp v_freight pe pf h (Some w_e) (Some w_f) = Inr (best, A, B, tt) \<and>
     0 \<le> delay_exp A \<and> 0 \<le> delay_fre A \<and>
     0 \<le> delay_exp B \<and> 0 \<le> delay_fre B"
proof -
  from assms have nz: "v_exp \<noteq> 0" "v_freight \<noteq> 0" by simp_all
  show ?thesis
    unfolding build_schedule_runs [OF nz] Let_def
    apply (intro exI conjI)
    apply (rule refl)
    apply simp_all
    done
qed

theorem delays_nonnegative_witness:
  "(0::real) < 40 \<and> (0::real) < 110 \<and> (0::real) < 40 \<and> (0::real) \<le> 3 \<and>
   (0::real) < 3 \<and> (0::real) < 1 \<and>
   (\<exists>best A B tt.
     build_schedule 40 110 40 622 600 3 (Some 3) (Some 1) = Inr (best, A, B, tt) \<and>
     0 \<le> delay_exp A \<and> 0 \<le> delay_fre A \<and>
     0 \<le> delay_exp B \<and> 0 \<le> delay_fre B)"
proof -
  have h: "(0::real) < 40" "(0::real) < 110" "(0::real) < 40" "(0::real) \<le> 3"
    "(0::real) < 3" "(0::real) < 1"
    by simp_all
  note c = delays_nonnegative [OF h, of 622 600]
  from h c show ?thesis by (intro conjI)
qed

subsection \<open>No failure on valid input\<close>



text \<open>The division fails for a speed of zero, and for no other speed.\<close>

lemma travel_time_minutes_error:
  "travel_time_minutes d v = Inl e \<longleftrightarrow> v = 0 \<and> e = ZeroDivisionError"
  by (auto simp: travel_time_minutes_def)

subsection \<open>Default weights\<close>

text \<open>
  Claim C10. A call of the generator without the two weights gives the result of the
  call with the weights 3.0 for the express and 1.0 for the freight. Each weight has
  its default on its own, too.
\<close>

theorem build_schedule_defaults:
  "build_schedule d v_exp v_freight pe pf h None None =
     build_schedule d v_exp v_freight pe pf h (Some 3) (Some 1) \<and>
   build_schedule d v_exp v_freight pe pf h (Some w) None =
     build_schedule d v_exp v_freight pe pf h (Some w) (Some 1) \<and>
   build_schedule d v_exp v_freight pe pf h None (Some w) =
     build_schedule d v_exp v_freight pe pf h (Some 3) (Some w)"
  by (simp add: build_schedule_def)

subsection \<open>Scenario 1\<close>



section \<open>Properties of the clock utilities\<close>

declare decimal_digits.simps [simp del]

lemma py_round_of_int: "py_round (of_int m) = m"
  by (simp add: py_round_def)

lemma py_round_nearest: "\<bar>of_int (py_round x) - x\<bar> \<le> \<bar>of_int k - x\<bar>"
proof -
  define f where "f = \<lfloor>x\<rfloor>"
  have f1: "of_int f \<le> x" and f2: "x < of_int f + 1"
    unfolding f_def by linarith+
  have "k \<le> f \<or> f + 1 \<le> k" by linarith
  then have k: "(of_int k :: real) \<le> of_int f \<or> (of_int f :: real) + 1 \<le> of_int k"
    by (metis of_int_le_iff of_int_add of_int_1)
  have "py_round x = f \<and> x - of_int f \<le> 1 / 2 \<or> py_round x = f + 1 \<and> 1 / 2 \<le> x - of_int f"
    unfolding py_round_def Let_def f_def [symmetric] by auto
  with f1 f2 k show ?thesis
    by (elim disjE conjE; simp; linarith)
qed

lemma py_round_half: "\<bar>of_int (py_round x) - x\<bar> \<le> 1 / 2"
proof -
  define f where "f = \<lfloor>x\<rfloor>"
  have f1: "of_int f \<le> x" and f2: "x < of_int f + 1"
    unfolding f_def by linarith+
  have "py_round x = f \<and> x - of_int f \<le> 1 / 2 \<or> py_round x = f + 1 \<and> 1 / 2 \<le> x - of_int f"
    unfolding py_round_def Let_def f_def [symmetric] by auto
  with f1 f2 show ?thesis
    by (elim disjE conjE; simp; linarith)
qed

lemma split_on_not_Nil: "split_on sep s \<noteq> []"
  by (induction s) (auto split: list.splits)

lemma split_on_no_sep: "sep \<notin> set s \<Longrightarrow> split_on sep s = [s]"
  by (induction s) auto

lemma split_on_append: "sep \<notin> set a \<Longrightarrow> split_on sep (a @ sep # b) = a # split_on sep b"
  by (induction a) auto

lemma split_on_decompose:
  "split_on sep s = p # ps \<Longrightarrow>
     sep \<notin> set p \<and>
     (if ps = [] then s = p else \<exists>rest. s = p @ sep # rest \<and> split_on sep rest = ps)"
proof (induction s arbitrary: p ps)
  case Nil
  then show ?case by simp
next
  case (Cons c cs)
  show ?case
  proof (cases "c = sep")
    case True
    with Cons.prems have "p = []" and "ps = split_on sep cs" by simp_all
    with True show ?thesis by (simp add: split_on_not_Nil)
  next
    case False
    obtain q qs where q: "split_on sep cs = q # qs"
      using split_on_not_Nil [of sep cs] by (cases "split_on sep cs") auto
    with False Cons.prems have p: "p = c # q" and ps: "ps = qs" by simp_all
    from Cons.IH [OF q] False show ?thesis
      unfolding p ps by (auto split: if_splits)
  qed
qed

lemma split_on_two_iff:
  "split_on sep s = [a, b] \<longleftrightarrow> s = a @ sep # b \<and> sep \<notin> set a \<and> sep \<notin> set b"
proof
  assume s: "split_on sep s = [a, b]"
  from split_on_decompose [OF s] obtain rest where
    a: "sep \<notin> set a" and r: "s = a @ sep # rest" and b: "split_on sep rest = [b]"
    by auto
  from split_on_decompose [OF b] have "sep \<notin> set b" and "rest = b" by simp_all
  with a r show "s = a @ sep # b \<and> sep \<notin> set a \<and> sep \<notin> set b" by simp
next
  assume "s = a @ sep # b \<and> sep \<notin> set a \<and> sep \<notin> set b"
  then show "split_on sep s = [a, b]"
    by (simp add: split_on_append split_on_no_sep)
qed

lemma of_char_digit_char: "n < 10 \<Longrightarrow> of_char (digit_char n) = 48 + n"
  by (simp add: digit_char_def)

lemma digit_char_numerals:
  "digit_char 0 = CHR ''0''" "digit_char 1 = CHR ''1''" "digit_char 2 = CHR ''2''"
  "digit_char 3 = CHR ''3''" "digit_char 4 = CHR ''4''" "digit_char 5 = CHR ''5''"
  "digit_char 6 = CHR ''6''" "digit_char 7 = CHR ''7''" "digit_char 8 = CHR ''8''"
  "digit_char 9 = CHR ''9''" "digit_char (Suc 0) = CHR ''1''"
  by (simp_all add: digit_char_def char_of_eq_iff)

lemma digit_of_digit_char: "n < 10 \<Longrightarrow> digit_of (digit_char n) = Some n"
  by (simp add: digit_of_def of_char_digit_char)

lemma digit_char_neq:
  assumes "n < 10" and "(of_char c :: nat) < 48 \<or> 57 < (of_char c :: nat)"
  shows "digit_char n \<noteq> c"
proof
  assume "digit_char n = c"
  then have "(of_char c :: nat) = 48 + n"
    using of_char_digit_char [OF assms(1)] by simp
  with assms show False by linarith
qed

lemma digit_char_plain:
  "n < 10 \<Longrightarrow>
     \<not> is_space (digit_char n) \<and> digit_char n \<noteq> CHR ''-'' \<and> digit_char n \<noteq> CHR ''+'' \<and>
     digit_char n \<noteq> CHR ''_'' \<and> digit_char n \<noteq> CHR '':''"
  by (simp add: is_space_def of_char_digit_char digit_char_neq)

lemma decimal_digits_one: "n < 10 \<Longrightarrow> decimal_digits n = [digit_char n]"
  by (subst decimal_digits.simps) simp

lemma decimal_digits_two:
  "10 \<le> n \<Longrightarrow> n < 100 \<Longrightarrow> decimal_digits n = [digit_char (n div 10), digit_char (n mod 10)]"
  by (subst decimal_digits.simps) (simp add: decimal_digits_one)

lemma format_02d_two:
  assumes "0 \<le> i" and "i < 100"
  shows "format_02d i = [digit_char (nat i div 10), digit_char (nat i mod 10)]"
proof (cases "nat i < 10")
  case True
  then show ?thesis
    using assms by (simp add: format_02d_def decimal_digits_one digit_char_numerals)
next
  case False
  then have "10 \<le> nat i" and "nat i < 100" using assms by linarith+
  then show ?thesis
    using assms by (simp add: format_02d_def decimal_digits_two)
qed

lemma py_int_two_digits:
  assumes "a < 10" and "b < 10"
  shows "py_int [digit_char a, digit_char b] = Some (int (10 * a + b))"
proof -
  note pa = digit_char_plain [OF assms(1)] and pb = digit_char_plain [OF assms(2)]
  have s: "strip [digit_char a, digit_char b] = [digit_char a, digit_char b]"
    using pa pb by (simp add: strip_def)
  show ?thesis
    unfolding py_int_def s Let_def
    using pa pb
    by (simp add: digit_of_digit_char assms decimal_value_def int_max_str_digits_def)
qed

lemma minutes_to_hhmm_shape:
  "minutes_to_hhmm x =
     (let r = py_round x;
          h = nat ((r div 60) mod 24);
          mm = nat (r mod 60)
      in [digit_char (h div 10), digit_char (h mod 10), CHR '':'',
          digit_char (mm div 10), digit_char (mm mod 10)])"
proof -
  define r where "r = py_round x"
  have fh: "format_02d ((r div 60) mod 24) =
      [digit_char (nat ((r div 60) mod 24) div 10), digit_char (nat ((r div 60) mod 24) mod 10)]"
    by (rule format_02d_two) simp_all
  have fm: "format_02d (r mod 60) =
      [digit_char (nat (r mod 60) div 10), digit_char (nat (r mod 60) mod 10)]"
    by (rule format_02d_two) simp_all
  show ?thesis
    unfolding minutes_to_hhmm_def Let_def r_def [symmetric] fh fm by simp
qed

subsection \<open>Round trip\<close>

text \<open>
  Claim C7. For every integer minute \<open>m\<close> from 0 to 1439, parsing the clock string
  that formatting \<open>m\<close> produces gives \<open>m\<close> back.
\<close>

theorem clock_round_trip:
  assumes "0 \<le> m" and "m \<le> 1439"
  shows "hhmm_to_minutes (minutes_to_hhmm (of_int m)) = Inr m"
proof -
  define h where "h = nat (m div 60)"
  define mm where "mm = nat (m mod 60)"
  have h: "h < 24" and mm: "mm < 60" and m: "m = int h * 60 + int mm"
    using assms unfolding h_def mm_def by (simp_all, linarith+)
  have q: "0 \<le> m div 60" "m div 60 < 24"
    using assms by linarith+
  then have wrap: "(m div 60) mod 24 = m div 60"
    by simp
  have fh: "format_02d ((m div 60) mod 24) = [digit_char (h div 10), digit_char (h mod 10)]"
    unfolding wrap h_def using q by (subst format_02d_two) simp_all
  have fm: "format_02d (m mod 60) = [digit_char (mm div 10), digit_char (mm mod 10)]"
    unfolding mm_def by (subst format_02d_two) simp_all
  have str: "minutes_to_hhmm (of_int m) =
      [digit_char (h div 10), digit_char (h mod 10)] @ CHR '':'' #
      [digit_char (mm div 10), digit_char (mm mod 10)]"
    by (simp add: minutes_to_hhmm_def py_round_of_int Let_def fh fm)
  have dh: "h div 10 < 10" "h mod 10 < 10" and dm: "mm div 10 < 10" "mm mod 10 < 10"
    using h mm by simp_all
  have sp: "split_on CHR '':'' (minutes_to_hhmm (of_int m)) =
      [[digit_char (h div 10), digit_char (h mod 10)],
       [digit_char (mm div 10), digit_char (mm mod 10)]]"
    unfolding str split_on_two_iff
    using digit_char_plain [OF dh(1)] digit_char_plain [OF dh(2)]
      digit_char_plain [OF dm(1)] digit_char_plain [OF dm(2)]
    by auto
  show ?thesis
    unfolding hhmm_to_minutes_def sp
    by (simp add: py_int_two_digits dh dm m)
qed


theorem clock_round_trip_witness:
  "(0::int) \<le> 622 \<and> (622::int) \<le> 1439 \<and>
   hhmm_to_minutes (minutes_to_hhmm (of_int 622)) = Inr 622"
  using clock_round_trip [of 622] by simp

subsection \<open>Formatting rounds\<close>

text \<open>
  Claim C8. For every real minute value, \<open>minutes_to_hhmm\<close> first rounds to the nearest
  integer: no integer is nearer to the value than the one it formats. It then writes
  the hour, wrapped modulo 24, and the minute with two digits each and a colon between
  them.
\<close>

theorem minutes_to_hhmm_rounds_then_formats:
  "(\<forall>k. \<bar>of_int (py_round x) - x\<bar> \<le> \<bar>of_int k - x\<bar>) \<and>
   minutes_to_hhmm x =
     (let r = py_round x;
          h = nat ((r div 60) mod 24);
          mm = nat (r mod 60)
      in [digit_char (h div 10), digit_char (h mod 10), CHR '':'',
          digit_char (mm div 10), digit_char (mm mod 10)])"
  using py_round_nearest [of x] minutes_to_hhmm_shape [of x] by blast

text \<open>
  Rounding, not truncation: 599.6 minutes is shown as 10:00. Half way between two
  integers the even one is taken, and hour 24 wraps to 00.
\<close>

lemma minutes_to_hhmm_examples:
  "minutes_to_hhmm (5996 / 10) = ''10:00''"
  "minutes_to_hhmm (5994 / 10) = ''09:59''"
  "minutes_to_hhmm (1 / 2) = ''00:00''"
  "minutes_to_hhmm (3 / 2) = ''00:02''"
  "minutes_to_hhmm 1440 = ''00:00''"
  by (simp_all add: minutes_to_hhmm_def py_round_def format_02d_two digit_char_numerals Let_def)

subsection \<open>Failure of parsing\<close>


lemma py_int_examples:
  "py_int '' -1_000 '' = Some (- 1000)"
  "py_int ''+007'' = Some 7"
  "py_int ''1__0'' = None"
  "py_int ''+ 5'' = None"
  "py_int '''' = None"
  by (simp_all add: py_int_def strip_def is_space_def digit_of_def decimal_value_def
      int_max_str_digits_def)

lemma hhmm_to_minutes_examples:
  "hhmm_to_minutes ''10:22'' = Inr 622"
  "hhmm_to_minutes ''10:22:01'' = Inl ValueError"
  "hhmm_to_minutes ''1022'' = Inl ValueError"
  "hhmm_to_minutes ''10:2a'' = Inl ValueError"
  "hhmm_to_minutes '':'' = Inl ValueError"
  by (simp_all add: hhmm_to_minutes_def py_int_def strip_def is_space_def digit_of_def
      decimal_value_def int_max_str_digits_def)

end
